theory Spec2Isabelle
  imports Main "HOL-Library.Sublist"
begin

section \<open>The markdown reporter of monosize\<close>

text \<open>
  A shallow embedding of \<^verbatim>\<open>packages/monosize/src/reporters/markdownReporter.mts\<close>.
  JavaScript strings are modelled as \<^typ>\<open>string\<close>; the four pictographs of the source
  are written as their UTF-8 bytes. The byte counts and deltas of a report are JavaScript
  numbers holding integers, modelled as \<^typ>\<open>int\<close> (so subtraction is exact).
\<close>

subsection \<open>Data model\<close>

text \<open>\<^verbatim>\<open>DiffByMetric\<close> of \<^verbatim>\<open>utils/calculateDiffByMetric.mts\<close>, as the reporter reads it.\<close>

record DiffByMetric =
  delta :: int
  percent :: string

text \<open>\<^verbatim>\<open>keyof DiffByMetric\<close>: the two keys \<^verbatim>\<open>'delta'\<close> and \<^verbatim>\<open>'percent'\<close>.\<close>

datatype deltaFormat = DeltaKey | PercentKey

text \<open>The \<^verbatim>\<open>diff\<close> object of a report entry: \<^verbatim>\<open>entry.diff.empty\<close>,
  \<^verbatim>\<open>entry.diff.minified\<close>, \<^verbatim>\<open>entry.diff.gzip\<close>.\<close>

record DiffForEntry =
  empty :: bool
  minified :: DiffByMetric
  gzip :: DiffByMetric

record entry =
  packageName :: string
  name :: string
  path :: string
  minifiedSize :: int
  gzippedSize :: int
  diff :: DiffForEntry

record options =
  commitSHA :: string
  repository :: string
  showUnchanged :: bool
  deltaFormat :: deltaFormat
  outputFile :: "string option"

text \<open>What \<^verbatim>\<open>formatDeltaFactory\<close> returns: a plain string, or an object
  \<^verbatim>\<open>{ deltaOutput, dirSymbol }\<close>.\<close>

datatype delta_output = Plain string | Structured (deltaOutput: string) (dirSymbol: string)

text \<open>A thrown or reported JavaScript \<^verbatim>\<open>Error\<close>, with its message.\<close>

datatype js_error = Error (message: string)

text \<open>An argument of \<^verbatim>\<open>console.log\<close> / \<^verbatim>\<open>console.error\<close>.\<close>

datatype console_arg = Str string | ErrVal js_error

text \<open>
  The actions of the reporter that are visible outside it, in the order they happen:
  the project-root lookup, a call of \<^verbatim>\<open>console.log\<close> (standard output), a call of
  \<^verbatim>\<open>console.error\<close> (the error channel), and a call of \<^verbatim>\<open>fs.writeFile\<close> that
  has accepted its arguments, with its path and content.
\<close>

datatype effect =
    FindPackageRoot string
  | ConsoleLog "console_arg list"
  | ConsoleError "console_arg list"
  | FsWriteFile string string

text \<open>
  The collaborators the module imports and the environment it runs in. Their code is not
  part of the reporter, so the reporter is modelled for every choice of them:
  the classifier \<^verbatim>\<open>getChangedEntriesInReport\<close> (returning the changed and the unchanged
  entries), \<^verbatim>\<open>formatBytes\<close>, \<^verbatim>\<open>formatDeltaFactory\<close> (given the diff of one metric,
  the delta format and the direction-symbol callback), the directory of the module
  (\<^verbatim>\<open>fileURLToPath(new URL('.', import.meta.url))\<close>), \<^verbatim>\<open>findPackageRoot\<close> of
  workspace-tools, and the two ways in which \<^verbatim>\<open>fs.writeFile\<close> can fail: the error
  (if any) that it throws at once, in the caller, because it rejects the path it is given
  (Node validates the path before any input or output, and throws on a path holding a
  NUL character), and the error (if any) that the file system later hands to its callback
  for a path and a content.
\<close>

record collaborators =
  getChangedEntriesInReport :: "entry list \<Rightarrow> entry list \<times> entry list"
  formatBytes :: "int \<Rightarrow> string"
  formatDeltaFactory :: "DiffByMetric \<Rightarrow> deltaFormat \<Rightarrow> (int \<Rightarrow> string) \<Rightarrow> delta_output"
  moduleDirname :: string
  findPackageRoot :: "string \<Rightarrow> string option"
  writeFileRejects :: "string \<Rightarrow> js_error option"
  writeFileError :: "string \<Rightarrow> string \<Rightarrow> js_error option"

text \<open>
  One invocation: the effects performed before it returns, how it returns (\<open>Inl\<close> a thrown
  error, \<open>Inr ()\<close> a normal return), and the callbacks it has registered with
  \<^verbatim>\<open>fs.writeFile\<close> (path, content, callback), which run after it has returned.
\<close>

record run =
  trace :: "effect list"
  outcome :: "js_error + unit"
  pending :: "(string \<times> string \<times> (js_error option \<Rightarrow> effect list)) list"

subsection \<open>String helpers\<close>

definition nl :: string where
  "nl = [CHR 0x0A]"

definition sq :: string where
  "sq = [CHR 0x27]"

text \<open>\<^verbatim>\<open>Array.prototype.join\<close> on an array of strings.\<close>

fun join :: "string \<Rightarrow> string list \<Rightarrow> string" where
  "join sep [] = []"
| "join sep [x] = x"
| "join sep (x # y # ys) = x @ sep @ join sep (y # ys)"

text \<open>The pictographs U+1F916, U+1F4CA, U+2705 and U+1F195 in UTF-8.\<close>

definition robot_face :: string where
  "robot_face = [CHR 0xF0, CHR 0x9F, CHR 0xA4, CHR 0x96]"

definition bar_chart :: string where
  "bar_chart = [CHR 0xF0, CHR 0x9F, CHR 0x93, CHR 0x8A]"

definition check_mark :: string where
  "check_mark = [CHR 0xE2, CHR 0x9C, CHR 0x85]"

definition new_button :: string where
  "new_button = [CHR 0xF0, CHR 0x9F, CHR 0x86, CHR 0x95]"

subsection \<open>The direction symbol and the delta cell (source lines 10 to 31)\<close>

definition icons_increase :: string where
  "icons_increase = ''increase.png''"

definition icons_decrease :: string where
  "icons_decrease = ''decrease.png''"

definition img :: "string \<Rightarrow> string" where
  \<open>img iconName =
     ''<img aria-hidden="true" src="https://microsoft.github.io/monosize/images/''
     @ iconName @ ''" />''\<close>

definition getDirectionSymbol :: "int \<Rightarrow> string" where
  "getDirectionSymbol v =
     (if v < 0 then img icons_decrease
      else if v > 0 then img icons_increase
      else [])"

definition formatDelta :: "collaborators \<Rightarrow> DiffByMetric \<Rightarrow> deltaFormat \<Rightarrow> string" where
  "formatDelta env d fmt =
     (case formatDeltaFactory env d fmt getDirectionSymbol of
        Plain s \<Rightarrow> s
      | Structured out symb \<Rightarrow> ''`'' @ out @ ''` '' @ symb)"

subsection \<open>The reporter (source lines 33 to 118)\<close>

definition footer :: "options \<Rightarrow> string" where
  "footer opts =
     ''<sub>'' @ robot_face @ '' This report was generated against <a href='' @ sq
     @ repository opts @ ''/commit/'' @ commitSHA opts @ sq @ ''>'' @ commitSHA opts
     @ ''</a></sub>''"

text \<open>JavaScript truthiness of an optional string: \<^verbatim>\<open>!x\<close> holds for \<^verbatim>\<open>undefined\<close>
  and for the empty string. It decides \<^verbatim>\<open>if (!packageRoot)\<close> (line 124) and
  \<^verbatim>\<open>if (outputFile)\<close> (line 104).\<close>

definition falsy :: "string option \<Rightarrow> bool" where
  "falsy x = (case x of None \<Rightarrow> True | Some p \<Rightarrow> p = [])"

text \<open>\<^verbatim>\<open>assertPackageRoot\<close> (lines 120 to 132).\<close>

definition assertPackageRoot :: "collaborators \<Rightarrow> js_error + unit" where
  \<open>assertPackageRoot env =
     (let dirname = moduleDirname env;
          packageRoot = findPackageRoot env dirname
      in if falsy packageRoot
         then Inl (Error (join nl
                [''Failed to find a package root (directory that contains "package.json" file)'',
                 ''Lookup start in: '' @ dirname]))
         else Inr ())\<close>

text \<open>The \<^verbatim>\<open>title\<close> of a row (lines 54 and 88).\<close>

definition title :: "entry \<Rightarrow> string" where
  "title e =
     ''<samp>'' @ packageName e @ ''</samp> <br /> <abbr title='' @ sq @ path e @ sq
     @ ''>'' @ name e @ ''</abbr>''"

text \<open>The cells of the row of a changed entry (lines 55 to 71).\<close>

definition before :: "collaborators \<Rightarrow> entry \<Rightarrow> string" where
  "before env e =
     (if empty (diff e)
      then join [] [''`'' @ formatBytes env 0 @ ''`'', ''<br />'', ''`'' @ formatBytes env 0 @ ''`'']
      else join []
        [''`'' @ formatBytes env (minifiedSize e - delta (minified (diff e))) @ ''`'',
         ''<br />'',
         ''`'' @ formatBytes env (gzippedSize e - delta (gzip (diff e))) @ ''`''])"

definition after :: "collaborators \<Rightarrow> entry \<Rightarrow> string" where
  "after env e =
     join [] [''`'' @ formatBytes env (minifiedSize e) @ ''`'', ''<br />'',
              ''`'' @ formatBytes env (gzippedSize e) @ ''`'']"

definition difference :: "collaborators \<Rightarrow> deltaFormat \<Rightarrow> entry \<Rightarrow> string" where
  "difference env fmt e =
     (if empty (diff e)
      then new_button @ '' New entry''
      else join []
        [formatDelta env (minified (diff e)) fmt,
         ''<br />'',
         formatDelta env (gzip (diff e)) fmt])"

text \<open>The line pushed for a changed entry (line 73).\<close>

definition changedRow :: "collaborators \<Rightarrow> deltaFormat \<Rightarrow> entry \<Rightarrow> string" where
  "changedRow env fmt e =
     ''| '' @ title e @ '' | '' @ before env e @ '' | '' @ after env e @ '' | ''
     @ difference env fmt e @ ''|''"

text \<open>The line pushed for an unchanged entry (lines 88 to 93).\<close>

definition unchangedRow :: "collaborators \<Rightarrow> entry \<Rightarrow> string" where
  "unchangedRow env e =
     (let size = join [] [''`'' @ formatBytes env (minifiedSize e) @ ''`'', ''<br />'',
                          ''`'' @ formatBytes env (gzippedSize e) @ ''`'']
      in ''| '' @ title e @ '' | '' @ size @ '' |'')"

text \<open>The lines pushed by the block of lines 49 to 77.\<close>

definition changedTable :: "collaborators \<Rightarrow> deltaFormat \<Rightarrow> entry list \<Rightarrow> string list" where
  "changedTable env fmt changedEntries =
     (if length changedEntries > 0
      then [''| Package & Exports | Baseline (minified/GZIP) | PR    | Change     |'',
            ''| :---------------- | -----------------------: | ----: | ---------: |'']
           @ map (changedRow env fmt) changedEntries
           @ ['''']
      else [])"

text \<open>The lines pushed by the block of lines 79 to 97.\<close>

definition unchangedSection :: "collaborators \<Rightarrow> bool \<Rightarrow> entry list \<Rightarrow> string list" where
  "unchangedSection env showUnch unchangedEntries =
     (if showUnch \<and> length unchangedEntries > 0
      then [''<details>'',
            ''<summary>Unchanged fixtures</summary>'',
            '''',
            ''| Package & Exports | Size (minified/GZIP) |'',
            ''| ----------------- | -------------------: |'']
           @ map (unchangedRow env) unchangedEntries
           @ [''</details>'']
      else [])"

text \<open>The callback handed to \<^verbatim>\<open>fs.writeFile\<close> (lines 108 to 115).\<close>

definition writeFileCallback :: "string \<Rightarrow> js_error option \<Rightarrow> effect list" where
  "writeFileCallback file err =
     ConsoleLog [Str ''writing to file'', Str file]
     # (case err of
          Some e \<Rightarrow> [ConsoleError [Str ''Error writing to file:'', ErrVal e]]
        | None \<Rightarrow> [ConsoleLog [Str ''Content written to file successfully!'']])"

text \<open>The first two elements of \<^verbatim>\<open>reportOutput\<close> (line 41) and the line of line 44.\<close>

definition reportHeader :: "string list" where
  "reportHeader = [''## '' @ bar_chart @ '' Bundle size report'', '''']"

definition noChangesLine :: string where
  "noChangesLine = check_mark @ '' No changes found''"

text \<open>
  Lines 104 to 116 call \<^verbatim>\<open>fs.writeFile\<close> with no \<^verbatim>\<open>try\<close> around the call: an error
  that \<^verbatim>\<open>fs.writeFile\<close> throws at once leaves \<^verbatim>\<open>markdownReporter\<close> as a thrown error,
  after the report has been printed (line 102), and no callback is registered.
\<close>

definition markdownReporter :: "collaborators \<Rightarrow> entry list \<Rightarrow> options \<Rightarrow> run" where
  "markdownReporter env report opts =
     (let foot = footer opts;
          lookup = FindPackageRoot (moduleDirname env)
      in case assertPackageRoot env of
           Inl err \<Rightarrow> \<lparr>trace = [lookup], outcome = Inl err, pending = []\<rparr>
         | Inr _ \<Rightarrow>
             (let (changedEntries, unchangedEntries) = getChangedEntriesInReport env report;
                  reportOutput = reportHeader
              in if length changedEntries = 0
                 then \<lparr>trace = [lookup, ConsoleLog [Str (join nl (reportOutput @ [noChangesLine]))]],
                       outcome = Inr (), pending = []\<rparr>
                 else
                   (let reportOutput = reportOutput @ changedTable env (deltaFormat opts) changedEntries;
                        reportOutput = reportOutput
                          @ unchangedSection env (showUnchanged opts) unchangedEntries;
                        reportOutput = reportOutput @ [foot];
                        printed = ConsoleLog [Str (join nl reportOutput)]
                    in if falsy (outputFile opts)
                       then \<lparr>trace = [lookup, printed], outcome = Inr (), pending = []\<rparr>
                       else (let file = the (outputFile opts);
                                 content = join nl reportOutput
                             in case writeFileRejects env file of
                                  Some err \<Rightarrow>
                                    \<lparr>trace = [lookup, printed], outcome = Inl err, pending = []\<rparr>
                                | None \<Rightarrow>
                                    \<lparr>trace = [lookup, printed, FsWriteFile file content],
                                     outcome = Inr (),
                                     pending = [(file, content, writeFileCallback file)]\<rparr>))))"

text \<open>
  The whole invocation as seen from outside: the effects of the call itself, followed by
  those of the registered callbacks, each run with what the file system reports for its
  write. A thrown error leaves no callback.
\<close>

definition completed :: "collaborators \<Rightarrow> run \<Rightarrow> effect list" where
  "completed env r =
     trace r @ concat (map (\<lambda>(file, content, callback). callback (writeFileError env file content))
                           (pending r))"

text \<open>What a run has printed to standard output: the arguments of its \<^verbatim>\<open>console.log\<close>
  calls, in order.\<close>

fun stdout :: "effect list \<Rightarrow> console_arg list list" where
  "stdout [] = []"
| "stdout (ConsoleLog args # es) = args # stdout es"
| "stdout (e # es) = stdout es"

text \<open>The file writes a run has requested: path and content of its \<^verbatim>\<open>fs.writeFile\<close>
  calls, in order.\<close>

fun writes :: "effect list \<Rightarrow> (string \<times> string) list" where
  "writes [] = []"
| "writes (FsWriteFile file content # es) = (file, content) # writes es"
| "writes (e # es) = writes es"

text \<open>What a run has sent to the error channel.\<close>

fun stderr :: "effect list \<Rightarrow> console_arg list list" where
  "stderr [] = []"
| "stderr (ConsoleError args # es) = args # stderr es"
| "stderr (e # es) = stderr es"

text \<open>The project-root lookups of a run: the start directories, in order.\<close>

fun lookups :: "effect list \<Rightarrow> string list" where
  "lookups [] = []"
| "lookups (FindPackageRoot d # es) = d # lookups es"
| "lookups (e # es) = lookups es"

text \<open>
  The array \<^verbatim>\<open>reportOutput\<close> at line 102, when the classifier has returned the changed
  entries \<open>ch\<close> (at least one) and the unchanged entries \<open>un\<close>.
\<close>

definition reportLines :: "collaborators \<Rightarrow> options \<Rightarrow> entry list \<Rightarrow> entry list \<Rightarrow> string list" where
  "reportLines env opts ch un =
     reportHeader @ changedTable env (deltaFormat opts) ch
     @ unchangedSection env (showUnchanged opts) un @ [footer opts]"

subsection \<open>Sample collaborators and inputs\<close>

text \<open>
  Stand-ins for the collaborators, used only to run the reporter on concrete inputs:
  a byte formatter that prints the decimal count followed by \<^verbatim>\<open>B\<close>, a classifier that
  calls an entry unchanged when both of its deltas are zero, and a delta factory that
  returns the formatted delta (or the stored percentage) with the symbol the callback
  gives for the delta.
\<close>

fun decimal :: "nat \<Rightarrow> string" where
  "decimal n =
     (if n < 10 then [char_of (48 + n)]
      else decimal (n div 10) @ [char_of (48 + n mod 10)])"

definition sample_formatBytes :: "int \<Rightarrow> string" where
  "sample_formatBytes v = (if v < 0 then ''-'' else []) @ decimal (nat \<bar>v\<bar>) @ '' B''"

definition sample_classifier :: "entry list \<Rightarrow> entry list \<times> entry list" where
  "sample_classifier report =
     (filter (\<lambda>e. \<not> (delta (gzip (diff e)) = 0 \<and> delta (minified (diff e)) = 0)) report,
      filter (\<lambda>e. delta (gzip (diff e)) = 0 \<and> delta (minified (diff e)) = 0) report)"

definition sample_formatDeltaFactory ::
  "DiffByMetric \<Rightarrow> deltaFormat \<Rightarrow> (int \<Rightarrow> string) \<Rightarrow> delta_output" where
  "sample_formatDeltaFactory d fmt directionSymbol =
     Structured (case fmt of DeltaKey \<Rightarrow> sample_formatBytes (delta d) | PercentKey \<Rightarrow> percent d)
                (directionSymbol (delta d))"

text \<open>A stand-in for the path validation of \<^verbatim>\<open>fs.writeFile\<close>: a path holding a NUL
  character is rejected.\<close>

definition sample_validatePath :: "string \<Rightarrow> js_error option" where
  "sample_validatePath file =
     (if CHR 0x00 \<in> set file
      then Some (Error ''ERR_INVALID_ARG_VALUE: the path must be without null bytes'')
      else None)"

definition sample_env :: collaborators where
  "sample_env =
     \<lparr>getChangedEntriesInReport = sample_classifier,
      formatBytes = sample_formatBytes,
      formatDeltaFactory = sample_formatDeltaFactory,
      moduleDirname = ''/repo/packages/monosize/src/reporters/'',
      findPackageRoot = (\<lambda>d. Some ''/repo/packages/monosize''),
      writeFileRejects = sample_validatePath,
      writeFileError = (\<lambda>file content. None)\<rparr>"

text \<open>The same environment outside any package.\<close>

definition rootless_env :: collaborators where
  "rootless_env = sample_env\<lparr>findPackageRoot := (\<lambda>d. None)\<rparr>"

text \<open>An entry that shrank by 500 and 200 bytes, a new entry, and an unchanged one.\<close>

definition sample_entry :: entry where
  "sample_entry =
     \<lparr>packageName = ''pkg'', name = ''Button'', path = ''button.fixture.js'',
      minifiedSize = 1500, gzippedSize = 600,
      diff = \<lparr>empty = False,
              minified = \<lparr>delta = - 500, percent = ''-25%''\<rparr>,
              gzip = \<lparr>delta = - 200, percent = ''-25%''\<rparr>\<rparr>\<rparr>"

definition sample_new_entry :: entry where
  "sample_new_entry =
     \<lparr>packageName = ''pkg'', name = ''Card'', path = ''card.fixture.js'',
      minifiedSize = 900, gzippedSize = 300,
      diff = \<lparr>empty = True,
              minified = \<lparr>delta = 900, percent = ''100%''\<rparr>,
              gzip = \<lparr>delta = 300, percent = ''100%''\<rparr>\<rparr>\<rparr>"

definition sample_unchanged_entry :: entry where
  "sample_unchanged_entry =
     \<lparr>packageName = ''pkg'', name = ''Link'', path = ''link.fixture.js'',
      minifiedSize = 700, gzippedSize = 250,
      diff = \<lparr>empty = False,
              minified = \<lparr>delta = 0, percent = ''0%''\<rparr>,
              gzip = \<lparr>delta = 0, percent = ''0%''\<rparr>\<rparr>\<rparr>"

definition sample_options :: options where
  "sample_options =
     \<lparr>commitSHA = ''abc1234'', repository = ''https://github.com/microsoft/monosize'',
      showUnchanged = True, deltaFormat = DeltaKey, outputFile = Some ''report.md''\<rparr>"

text \<open>The same options with an output path that holds a NUL character.\<close>

definition nul_path_options :: options where
  "nul_path_options = sample_options\<lparr>outputFile := Some [CHR ''a'', CHR 0x00, CHR ''b'']\<rparr>"

section \<open>The paths through the reporter\<close>

lemma reporter_no_root:
  assumes "falsy (findPackageRoot env (moduleDirname env))"
  shows "markdownReporter env report opts =
           \<lparr>trace = [FindPackageRoot (moduleDirname env)],
            outcome = Inl (Error (join nl
                [''Failed to find a package root (directory that contains \"package.json\" file)'',
                 ''Lookup start in: '' @ moduleDirname env])),
            pending = []\<rparr>"
  using assms by (simp add: markdownReporter_def assertPackageRoot_def Let_def)

lemma reporter_no_changes:
  assumes "\<not> falsy (findPackageRoot env (moduleDirname env))"
    and "getChangedEntriesInReport env report = ([], un)"
  shows "markdownReporter env report opts =
           \<lparr>trace = [FindPackageRoot (moduleDirname env),
                     ConsoleLog [Str (join nl (reportHeader @ [noChangesLine]))]],
            outcome = Inr (), pending = []\<rparr>"
  using assms by (simp add: markdownReporter_def assertPackageRoot_def Let_def)

lemma reporter_changed:
  assumes "\<not> falsy (findPackageRoot env (moduleDirname env))"
    and "getChangedEntriesInReport env report = (ch, un)" and "ch \<noteq> []"
  shows "markdownReporter env report opts =
           (if falsy (outputFile opts)
            then \<lparr>trace = [FindPackageRoot (moduleDirname env),
                     ConsoleLog [Str (join nl (reportLines env opts ch un))]],
                  outcome = Inr (), pending = []\<rparr>
            else case writeFileRejects env (the (outputFile opts)) of
              Some err \<Rightarrow>
                \<lparr>trace = [FindPackageRoot (moduleDirname env),
                     ConsoleLog [Str (join nl (reportLines env opts ch un))]],
                  outcome = Inl err, pending = []\<rparr>
            | None \<Rightarrow>
                \<lparr>trace = [FindPackageRoot (moduleDirname env),
                     ConsoleLog [Str (join nl (reportLines env opts ch un))],
                     FsWriteFile (the (outputFile opts)) (join nl (reportLines env opts ch un))],
                  outcome = Inr (),
                  pending = [(the (outputFile opts), join nl (reportLines env opts ch un),
                              writeFileCallback (the (outputFile opts)))]\<rparr>)"
  using assms
  by (simp add: markdownReporter_def assertPackageRoot_def Let_def reportLines_def
      split: option.splits)

lemma sample_root: "\<not> falsy (findPackageRoot sample_env (moduleDirname sample_env))"
  by (simp add: sample_env_def falsy_def)

subsection \<open>Facts about the assembled lines\<close>

lemma join_snoc: "xs \<noteq> [] \<Longrightarrow> join sep (xs @ [x]) = join sep xs @ sep @ x"
  by (induction sep xs rule: join.induct) auto

lemma changedRow_starts: "take 4 (changedRow env fmt e) = ''| <s''"
  by (simp add: changedRow_def title_def)

lemma footer_starts: "take 4 (footer opts) = ''<sub''"
  by (simp add: footer_def)

lemma changedTable_starts: "l \<in> set (changedTable env fmt ch) \<Longrightarrow> take 1 l \<noteq> ''<''"
  by (auto simp: changedTable_def changedRow_def split: if_splits)

lemma unchangedSection_starts:
  "l \<in> set (unchangedSection env su un) \<Longrightarrow> take 4 l \<noteq> ''<sub''"
  by (auto simp: unchangedSection_def unchangedRow_def title_def split: if_splits)

lemma reportHeader_starts: "l \<in> set reportHeader \<Longrightarrow> take 1 l \<noteq> ''<''"
  by (auto simp: reportHeader_def)

lemma footer_not_in_body:
  "footer opts \<notin> set (reportHeader @ changedTable env fmt ch @ unchangedSection env su un)"
proof
  assume a: "footer opts \<in> set (reportHeader @ changedTable env fmt ch @ unchangedSection env su un)"
  have t1: "take 1 (footer opts) = ''<''" by (simp add: footer_def)
  from a consider "footer opts \<in> set reportHeader" | "footer opts \<in> set (changedTable env fmt ch)"
    | "footer opts \<in> set (unchangedSection env su un)" by auto
  then show False
  proof cases
    case 1 from reportHeader_starts [OF this] t1 show False by simp
  next
    case 2 from changedTable_starts [OF this] t1 show False by simp
  next
    case 3 from unchangedSection_starts [OF this] footer_starts [of opts] show False by simp
  qed
qed

lemma footer_mentions_commit: "sublist (commitSHA opts) (footer opts)"
proof -
  have "footer opts = (''<sub>'' @ robot_face @ '' This report was generated against <a href='' @ sq
     @ repository opts @ ''/commit/'') @ commitSHA opts @ (sq @ ''>'' @ commitSHA opts
     @ ''</a></sub>'')" by (simp add: footer_def)
  then show ?thesis unfolding sublist_def by blast
qed

lemma footer_mentions_repository: "sublist (repository opts) (footer opts)"
proof -
  have "footer opts = (''<sub>'' @ robot_face @ '' This report was generated against <a href='' @ sq)
     @ repository opts @ (''/commit/'' @ commitSHA opts @ sq @ ''>'' @ commitSHA opts
     @ ''</a></sub>'')" by (simp add: footer_def)
  then show ?thesis unfolding sublist_def by blast
qed

lemma reportLines_row:
  assumes "i < length ch"
  shows "reportLines env opts ch un ! (4 + i) = changedRow env (deltaFormat opts) (ch ! i)"
proof -
  from assms have "ch \<noteq> []" by auto
  with assms show ?thesis
    by (simp add: reportLines_def reportHeader_def changedTable_def nth_append)
qed

lemma stdout_changed:
  assumes "\<not> falsy (findPackageRoot env (moduleDirname env))"
    and "getChangedEntriesInReport env report = (ch, un)" and "ch \<noteq> []"
  shows "stdout (trace (markdownReporter env report opts)) = [[Str (join nl (reportLines env opts ch un))]]"
  using reporter_changed [OF assms, of opts] by (simp split: option.splits)

lemma sample_changed:
  "getChangedEntriesInReport sample_env [sample_entry, sample_new_entry, sample_unchanged_entry]
     = ([sample_entry, sample_new_entry], [sample_unchanged_entry])"
  by (simp add: sample_env_def sample_classifier_def sample_entry_def sample_new_entry_def
      sample_unchanged_entry_def)

lemma sample_formatBytes_values:
  "sample_formatBytes 2000 = ''2000 B''" "sample_formatBytes 800 = ''800 B''"
  "sample_formatBytes 1500 = ''1500 B''" "sample_formatBytes 600 = ''600 B''"
  "sample_formatBytes 0 = ''0 B''" "sample_formatBytes 900 = ''900 B''"
  "sample_formatBytes 300 = ''300 B''" "sample_formatBytes 700 = ''700 B''"
  "sample_formatBytes 250 = ''250 B''"
  "sample_formatBytes (- 500) = ''-500 B''" "sample_formatBytes (- 200) = ''-200 B''"
  by code_simp+

lemma sample_factory_calls_back:
  "formatDeltaFactory sample_env d DeltaKey getDirectionSymbol =
     Structured (sample_formatBytes (delta d)) (getDirectionSymbol (delta d))"
  by (simp add: sample_env_def sample_formatDeltaFactory_def)

lemma no_details_without_section:
  "''<details>'' \<notin> set (reportHeader @ changedTable env fmt ch @ [footer opts])"
proof
  assume a: "''<details>'' \<in> set (reportHeader @ changedTable env fmt ch @ [footer opts])"
  then consider "''<details>'' \<in> set reportHeader" | "''<details>'' \<in> set (changedTable env fmt ch)"
    | "''<details>'' = footer opts" by auto
  then show False
  proof cases
    case 1 from reportHeader_starts [OF this] show False by simp
  next
    case 2 from changedTable_starts [OF this] show False by simp
  next
    case 3
    then have "take 4 ''<details>'' = take 4 (footer opts)" by simp
    then show False by (simp add: footer_starts)
  qed
qed

lemma sample_changed_only:
  "getChangedEntriesInReport sample_env [sample_entry, sample_unchanged_entry]
     = ([sample_entry], [sample_unchanged_entry])"
  by (simp add: sample_env_def sample_classifier_def sample_entry_def sample_unchanged_entry_def)

lemma file_receives_printed_text:
  assumes "\<not> falsy (findPackageRoot env (moduleDirname env))"
    and "getChangedEntriesInReport env report = (ch, un)" and "ch \<noteq> []"
    and "outputFile opts = Some file" and "file \<noteq> []"
    and "writeFileRejects env file = None"
  shows "stdout (trace (markdownReporter env report opts)) = [[Str (join nl (reportLines env opts ch un))]]
       \<and> writes (trace (markdownReporter env report opts)) = [(file, join nl (reportLines env opts ch un))]"
  using reporter_changed [OF assms(1-3), of opts] assms(4-6) by (simp add: falsy_def)

subsection \<open>The two ways a write can fail\<close>

lemma callback_failure_is_logged:
  assumes "\<not> falsy (findPackageRoot env (moduleDirname env))"
    and "getChangedEntriesInReport env report = (ch, un)" and "ch \<noteq> []"
    and "outputFile opts = Some file" and "file \<noteq> []"
    and "writeFileRejects env file = None"
    and "writeFileError env file (join nl (reportLines env opts ch un)) = Some err"
  shows "outcome (markdownReporter env report opts) = Inr ()
       \<and> completed env (markdownReporter env report opts) =
           [FindPackageRoot (moduleDirname env),
            ConsoleLog [Str (join nl (reportLines env opts ch un))],
            FsWriteFile file (join nl (reportLines env opts ch un)),
            ConsoleLog [Str ''writing to file'', Str file],
            ConsoleError [Str ''Error writing to file:'', ErrVal err]]"
  using reporter_changed [OF assms(1-3), of opts] assms(4-7)
  by (simp add: falsy_def completed_def writeFileCallback_def)

lemma rejected_path_is_thrown:
  assumes "\<not> falsy (findPackageRoot env (moduleDirname env))"
    and "getChangedEntriesInReport env report = (ch, un)" and "ch \<noteq> []"
    and "outputFile opts = Some file" and "file \<noteq> []"
    and "writeFileRejects env file = Some err"
  shows "outcome (markdownReporter env report opts) = Inl err
       \<and> completed env (markdownReporter env report opts) =
           [FindPackageRoot (moduleDirname env),
            ConsoleLog [Str (join nl (reportLines env opts ch un))]]"
  using reporter_changed [OF assms(1-3), of opts] assms(4-6)
  by (simp add: falsy_def completed_def)

lemma sample_changed_single:
  "getChangedEntriesInReport sample_env [sample_entry] = ([sample_entry], [])"
  by (simp add: sample_env_def sample_classifier_def sample_entry_def)

section \<open>The claims\<close>

text \<open>
  Claim C2. When the classifier returns no changed entry (and the project root is found),
  the reporter prints exactly the header, an empty line and the no-changes line, and does
  nothing else: no table, no unchanged section, no footer and no file write, whatever
  \<open>showUnchanged\<close>, the other options and the unchanged entries are.
\<close>

theorem no_changes_output:
  assumes "\<not> falsy (findPackageRoot env (moduleDirname env))"
    and "fst (getChangedEntriesInReport env report) = []"
  shows "markdownReporter env report opts =
           \<lparr>trace = [FindPackageRoot (moduleDirname env),
                     ConsoleLog [Str (''## '' @ [CHR 0xF0, CHR 0x9F, CHR 0x93, CHR 0x8A]
                                      @ '' Bundle size report'' @ [CHR 0x0A] @ [CHR 0x0A]
                                      @ [CHR 0xE2, CHR 0x9C, CHR 0x85] @ '' No changes found'')]],
            outcome = Inr (), pending = []\<rparr>
         \<and> stdout (completed env (markdownReporter env report opts)) =
             [[Str (join nl (reportHeader @ [noChangesLine]))]]
         \<and> writes (completed env (markdownReporter env report opts)) = []"
proof -
  obtain un where "getChangedEntriesInReport env report = ([], un)"
    using assms(2) by (cases "getChangedEntriesInReport env report") simp
  from reporter_no_changes [OF assms(1) this, of opts] show ?thesis
    by (simp add: completed_def reportHeader_def noChangesLine_def nl_def bar_chart_def check_mark_def)
qed

theorem no_changes_output_witness:
  "\<not> falsy (findPackageRoot sample_env (moduleDirname sample_env))
   \<and> fst (getChangedEntriesInReport sample_env [sample_unchanged_entry]) = []
   \<and> showUnchanged sample_options
   \<and> outputFile sample_options = Some ''report.md''
   \<and> trace (markdownReporter sample_env [sample_unchanged_entry] sample_options) =
       [FindPackageRoot ''/repo/packages/monosize/src/reporters/'',
        ConsoleLog [Str (''## '' @ [CHR 0xF0, CHR 0x9F, CHR 0x93, CHR 0x8A]
                         @ '' Bundle size report'' @ [CHR 0x0A] @ [CHR 0x0A]
                         @ [CHR 0xE2, CHR 0x9C, CHR 0x85] @ '' No changes found'')]]"
proof -
  have h: "fst (getChangedEntriesInReport sample_env [sample_unchanged_entry]) = []"
    by (simp add: sample_env_def sample_classifier_def sample_unchanged_entry_def)
  from no_changes_output [OF sample_root h, of sample_options] show ?thesis
    using h sample_root by (simp add: sample_options_def sample_env_def)
qed

text \<open>
  Claim C8. When the project-root locator returns no root, the reporter throws an error
  whose message says that no package root was found and where the lookup started, and it
  prints nothing, logs nothing and writes nothing. In every invocation the lookup happens
  exactly once and is the first thing the reporter does.
\<close>

theorem missing_package_root_is_fatal:
  \<open>(findPackageRoot env (moduleDirname env) = None \<longrightarrow>
      markdownReporter env report opts =
        \<lparr>trace = [FindPackageRoot (moduleDirname env)],
         outcome = Inl (Error (''Failed to find a package root (directory that contains "package.json" file)''
                               @ [CHR 0x0A] @ ''Lookup start in: '' @ moduleDirname env)),
         pending = []\<rparr>
      \<and> stdout (completed env (markdownReporter env report opts)) = []
      \<and> stderr (completed env (markdownReporter env report opts)) = []
      \<and> writes (completed env (markdownReporter env report opts)) = [])
   \<and> lookups (completed env (markdownReporter env report opts)) = [moduleDirname env]
   \<and> take 1 (completed env (markdownReporter env report opts)) = [FindPackageRoot (moduleDirname env)]\<close>
proof -
  let ?r = "markdownReporter env report opts"
  have a: "findPackageRoot env (moduleDirname env) = None \<Longrightarrow>
      ?r = \<lparr>trace = [FindPackageRoot (moduleDirname env)],
         outcome = Inl (Error (''Failed to find a package root (directory that contains \"package.json\" file)''
                               @ [CHR 0x0A] @ ''Lookup start in: '' @ moduleDirname env)),
         pending = []\<rparr>"
    using reporter_no_root [of env report opts] by (simp add: falsy_def nl_def)
  have b: "lookups (completed env ?r) = [moduleDirname env]
    \<and> take 1 (completed env ?r) = [FindPackageRoot (moduleDirname env)]"
  proof (cases "falsy (findPackageRoot env (moduleDirname env))")
    case True
    from reporter_no_root [OF this, of report opts] show ?thesis
      by (simp add: completed_def)
  next
    case False
    obtain ch un where g: "getChangedEntriesInReport env report = (ch, un)"
      by (cases "getChangedEntriesInReport env report")
    show ?thesis
    proof (cases "ch = []")
      case True
      with g reporter_no_changes [OF False, of report un opts] show ?thesis
        by (simp add: completed_def)
    next
      case ne: False
      from reporter_changed [OF False g ne, of opts] show ?thesis
        by (cases "writeFileError env (the (outputFile opts)) (join nl (reportLines env opts ch un))";
            cases "writeFileRejects env (the (outputFile opts))")
           (simp_all add: completed_def writeFileCallback_def)
    qed
  qed
  from a b show ?thesis by (simp add: completed_def)
qed

theorem missing_package_root_is_fatal_witness:
  \<open>findPackageRoot rootless_env (moduleDirname rootless_env) = None
   \<and> markdownReporter rootless_env [sample_entry] sample_options =
        \<lparr>trace = [FindPackageRoot ''/repo/packages/monosize/src/reporters/''],
         outcome = Inl (Error (''Failed to find a package root (directory that contains "package.json" file)''
                               @ [CHR 0x0A] @ ''Lookup start in: /repo/packages/monosize/src/reporters/'')),
         pending = []\<rparr>
   \<and> stdout (completed rootless_env (markdownReporter rootless_env [sample_entry] sample_options)) = []\<close>
proof -
  have h: "findPackageRoot rootless_env (moduleDirname rootless_env) = None"
    by (simp add: rootless_env_def sample_env_def)
  have d: "moduleDirname rootless_env = ''/repo/packages/monosize/src/reporters/''"
    by (simp add: rootless_env_def sample_env_def)
  note t = missing_package_root_is_fatal [of rootless_env "[sample_entry]" sample_options]
  from t h have r: "markdownReporter rootless_env [sample_entry] sample_options =
        \<lparr>trace = [FindPackageRoot (moduleDirname rootless_env)],
         outcome = Inl (Error (''Failed to find a package root (directory that contains \"package.json\" file)''
                               @ [CHR 0x0A] @ ''Lookup start in: '' @ moduleDirname rootless_env)),
         pending = []\<rparr>"
    by blast
  from t h have s: "stdout (completed rootless_env
      (markdownReporter rootless_env [sample_entry] sample_options)) = []"
    by blast
  from r have "markdownReporter rootless_env [sample_entry] sample_options =
        \<lparr>trace = [FindPackageRoot ''/repo/packages/monosize/src/reporters/''],
         outcome = Inl (Error (''Failed to find a package root (directory that contains \"package.json\" file)''
                               @ [CHR 0x0A] @ ''Lookup start in: /repo/packages/monosize/src/reporters/'')),
         pending = []\<rparr>"
    by (simp add: d)
  with h s show ?thesis by blast
qed

text \<open>
  Claim C1, as amended. When the project root is found and the classifier returns at least
  one changed entry, the report text handed to \<^verbatim>\<open>console.log\<close> is the lines of the
  header, the table and the unchanged section (if any) joined by newlines, then a newline
  and the footer. The footer is the last line, it is none of the lines before it (so it
  occurs once among the lines), and it contains the commit identifier and the repository
  URL.
\<close>

theorem footer_ends_report:
  assumes "\<not> falsy (findPackageRoot env (moduleDirname env))"
    and "getChangedEntriesInReport env report = (ch, un)" and "ch \<noteq> []"
  shows "(let body = reportHeader @ changedTable env (deltaFormat opts) ch
                     @ unchangedSection env (showUnchanged opts) un;
              text = join nl body @ nl @ footer opts
          in stdout (trace (markdownReporter env report opts)) = [[Str text]]
             \<and> text = join nl (body @ [footer opts])
             \<and> footer opts \<notin> set body
             \<and> count_list (body @ [footer opts]) (footer opts) = 1
             \<and> suffix (footer opts) text
             \<and> sublist (commitSHA opts) (footer opts)
             \<and> sublist (repository opts) (footer opts))"
proof -
  let ?body = "reportHeader @ changedTable env (deltaFormat opts) ch
                     @ unchangedSection env (showUnchanged opts) un"
  have ne: "?body \<noteq> []" by (simp add: reportHeader_def)
  have lines: "reportLines env opts ch un = ?body @ [footer opts]"
    by (simp add: reportLines_def)
  have j: "join nl (?body @ [footer opts]) = join nl ?body @ nl @ footer opts"
    using ne by (rule join_snoc)
  have out: "stdout (trace (markdownReporter env report opts)) =
      [[Str (join nl ?body @ nl @ footer opts)]]"
    using stdout_changed [OF assms, of opts] lines j by simp
  have notin: "footer opts \<notin> set ?body" by (rule footer_not_in_body)
  then have cnt: "count_list (?body @ [footer opts]) (footer opts) = 1"
    by (simp add: count_list_0_iff)
  have suf: "suffix (footer opts) (join nl ?body @ nl @ footer opts)"
    by (simp add: suffix_def)
  show ?thesis
    unfolding Let_def
    using out j [symmetric] notin cnt suf footer_mentions_commit [of opts]
      footer_mentions_repository [of opts]
    by (intro conjI) assumption+
qed

theorem footer_ends_report_witness:
  "\<not> falsy (findPackageRoot sample_env (moduleDirname sample_env))
   \<and> getChangedEntriesInReport sample_env [sample_entry, sample_new_entry, sample_unchanged_entry]
       = ([sample_entry, sample_new_entry], [sample_unchanged_entry])
   \<and> [sample_entry, sample_new_entry] \<noteq> []
   \<and> suffix (''<sub>'' @ [CHR 0xF0, CHR 0x9F, CHR 0xA4, CHR 0x96]
              @ '' This report was generated against <a href='' @ [CHR 0x27]
              @ ''https://github.com/microsoft/monosize/commit/abc1234'' @ [CHR 0x27]
              @ ''>abc1234</a></sub>'')
        (join nl (reportLines sample_env sample_options [sample_entry, sample_new_entry]
                    [sample_unchanged_entry]))
   \<and> stdout (trace (markdownReporter sample_env
         [sample_entry, sample_new_entry, sample_unchanged_entry] sample_options))
       = [[Str (join nl (reportLines sample_env sample_options [sample_entry, sample_new_entry]
                    [sample_unchanged_entry]))]]"
proof -
  have ne: "[sample_entry, sample_new_entry] \<noteq> []" by simp
  have f: "footer sample_options = ''<sub>'' @ [CHR 0xF0, CHR 0x9F, CHR 0xA4, CHR 0x96]
              @ '' This report was generated against <a href='' @ [CHR 0x27]
              @ ''https://github.com/microsoft/monosize/commit/abc1234'' @ [CHR 0x27]
              @ ''>abc1234</a></sub>''"
    by (simp add: footer_def sample_options_def robot_face_def sq_def)
  have l: "reportLines sample_env sample_options [sample_entry, sample_new_entry]
                    [sample_unchanged_entry]
     = (reportHeader @ changedTable sample_env (deltaFormat sample_options) [sample_entry, sample_new_entry]
                     @ unchangedSection sample_env (showUnchanged sample_options) [sample_unchanged_entry])
       @ [footer sample_options]"
    by (simp add: reportLines_def)
  note t = footer_ends_report [OF sample_root sample_changed ne, of sample_options, unfolded Let_def]
  note t1 = t [THEN conjunct1]
  note t2 = t [THEN conjunct2, THEN conjunct1]
  note t5 = t [THEN conjunct2, THEN conjunct2, THEN conjunct2, THEN conjunct2, THEN conjunct1]
  from t1 t2 l have out: "stdout (trace (markdownReporter sample_env
         [sample_entry, sample_new_entry, sample_unchanged_entry] sample_options))
       = [[Str (join nl (reportLines sample_env sample_options [sample_entry, sample_new_entry]
                    [sample_unchanged_entry]))]]"
    by metis
  from t5 t2 l f have suf: "suffix (''<sub>'' @ [CHR 0xF0, CHR 0x9F, CHR 0xA4, CHR 0x96]
              @ '' This report was generated against <a href='' @ [CHR 0x27]
              @ ''https://github.com/microsoft/monosize/commit/abc1234'' @ [CHR 0x27]
              @ ''>abc1234</a></sub>'')
        (join nl (reportLines sample_env sample_options [sample_entry, sample_new_entry]
                    [sample_unchanged_entry]))"
    by metis
  from sample_root sample_changed ne suf out show ?thesis
    by (intro conjI)
qed

text \<open>
  Claim C1 as stated fails when no entry has changed: the reporter returns at line 46,
  before the footer is pushed, and the printed text holds neither the commit identifier
  nor the repository URL.
\<close>

theorem footer_absent_without_changes:
  "stdout (completed sample_env (markdownReporter sample_env [sample_unchanged_entry] sample_options))
     = [[Str (''## '' @ [CHR 0xF0, CHR 0x9F, CHR 0x93, CHR 0x8A] @ '' Bundle size report''
              @ [CHR 0x0A] @ [CHR 0x0A] @ [CHR 0xE2, CHR 0x9C, CHR 0x85] @ '' No changes found'')]]
   \<and> \<not> sublist (commitSHA sample_options)
          (''## '' @ [CHR 0xF0, CHR 0x9F, CHR 0x93, CHR 0x8A] @ '' Bundle size report''
              @ [CHR 0x0A] @ [CHR 0x0A] @ [CHR 0xE2, CHR 0x9C, CHR 0x85] @ '' No changes found'')
   \<and> \<not> sublist (repository sample_options)
          (''## '' @ [CHR 0xF0, CHR 0x9F, CHR 0x93, CHR 0x8A] @ '' Bundle size report''
              @ [CHR 0x0A] @ [CHR 0x0A] @ [CHR 0xE2, CHR 0x9C, CHR 0x85] @ '' No changes found'')
   \<and> \<not> suffix (footer sample_options)
          (''## '' @ [CHR 0xF0, CHR 0x9F, CHR 0x93, CHR 0x8A] @ '' Bundle size report''
              @ [CHR 0x0A] @ [CHR 0x0A] @ [CHR 0xE2, CHR 0x9C, CHR 0x85] @ '' No changes found'')"
proof -
  have g: "getChangedEntriesInReport sample_env [sample_unchanged_entry] = ([], [sample_unchanged_entry])"
    by (simp add: sample_env_def sample_classifier_def sample_unchanged_entry_def)
  have a: "stdout (completed sample_env (markdownReporter sample_env [sample_unchanged_entry] sample_options))
     = [[Str (''## '' @ [CHR 0xF0, CHR 0x9F, CHR 0x93, CHR 0x8A] @ '' Bundle size report''
              @ [CHR 0x0A] @ [CHR 0x0A] @ [CHR 0xE2, CHR 0x9C, CHR 0x85] @ '' No changes found'')]]"
    using reporter_no_changes [OF sample_root g, of sample_options]
    by (simp add: completed_def reportHeader_def noChangesLine_def nl_def bar_chart_def check_mark_def)
  have b: "\<not> sublist (commitSHA sample_options)
          (''## '' @ [CHR 0xF0, CHR 0x9F, CHR 0x93, CHR 0x8A] @ '' Bundle size report''
              @ [CHR 0x0A] @ [CHR 0x0A] @ [CHR 0xE2, CHR 0x9C, CHR 0x85] @ '' No changes found'')"
    by code_simp
  have c: "\<not> sublist (repository sample_options)
          (''## '' @ [CHR 0xF0, CHR 0x9F, CHR 0x93, CHR 0x8A] @ '' Bundle size report''
              @ [CHR 0x0A] @ [CHR 0x0A] @ [CHR 0xE2, CHR 0x9C, CHR 0x85] @ '' No changes found'')"
    by code_simp
  have d: "\<not> suffix (footer sample_options)
          (''## '' @ [CHR 0xF0, CHR 0x9F, CHR 0x93, CHR 0x8A] @ '' Bundle size report''
              @ [CHR 0x0A] @ [CHR 0x0A] @ [CHR 0xE2, CHR 0x9C, CHR 0x85] @ '' No changes found'')"
    by code_simp
  from a b c d show ?thesis by blast
qed

text \<open>
  Claim C3. For a changed entry whose diff is not marked empty, the line of the printed
  report for that entry (line \<open>4 + i\<close> for the \<open>i\<close>-th changed entry) has as its Before
  cell the minified size minus the minified delta and the gzipped size minus the gzip
  delta, each formatted by \<^verbatim>\<open>formatBytes\<close> between backquotes, and as its After cell the
  two current sizes, formatted by the same \<^verbatim>\<open>formatBytes\<close> in the same way.
\<close>

theorem before_cell_subtracts_delta:
  assumes "\<not> falsy (findPackageRoot env (moduleDirname env))"
    and "getChangedEntriesInReport env report = (ch, un)"
    and "i < length ch" and "\<not> empty (diff (ch ! i))"
  shows "stdout (trace (markdownReporter env report opts)) =
           [[Str (join nl (reportLines env opts ch un))]]
       \<and> reportLines env opts ch un ! (4 + i) =
           ''| '' @ title (ch ! i) @ '' | '' @ before env (ch ! i) @ '' | '' @ after env (ch ! i)
           @ '' | '' @ difference env (deltaFormat opts) (ch ! i) @ ''|''
       \<and> before env (ch ! i) =
           ''`'' @ formatBytes env (minifiedSize (ch ! i) - delta (minified (diff (ch ! i))))
           @ ''`<br />`''
           @ formatBytes env (gzippedSize (ch ! i) - delta (gzip (diff (ch ! i)))) @ ''`''
       \<and> after env (ch ! i) =
           ''`'' @ formatBytes env (minifiedSize (ch ! i)) @ ''`<br />`''
           @ formatBytes env (gzippedSize (ch ! i)) @ ''`''"
proof -
  from assms(3) have ne: "ch \<noteq> []" by auto
  have a: "stdout (trace (markdownReporter env report opts)) =
           [[Str (join nl (reportLines env opts ch un))]]"
    by (rule stdout_changed [OF assms(1,2) ne])
  have b: "reportLines env opts ch un ! (4 + i) =
           ''| '' @ title (ch ! i) @ '' | '' @ before env (ch ! i) @ '' | '' @ after env (ch ! i)
           @ '' | '' @ difference env (deltaFormat opts) (ch ! i) @ ''|''"
    using reportLines_row [OF assms(3), of env opts un] by (simp add: changedRow_def)
  have c: "before env (ch ! i) =
           ''`'' @ formatBytes env (minifiedSize (ch ! i) - delta (minified (diff (ch ! i))))
           @ ''`<br />`''
           @ formatBytes env (gzippedSize (ch ! i) - delta (gzip (diff (ch ! i)))) @ ''`''"
    using assms(4) by (simp add: before_def)
  have d: "after env (ch ! i) =
           ''`'' @ formatBytes env (minifiedSize (ch ! i)) @ ''`<br />`''
           @ formatBytes env (gzippedSize (ch ! i)) @ ''`''"
    by (simp add: after_def)
  from a b c d show ?thesis by (intro conjI)
qed

theorem before_cell_subtracts_delta_witness:
  "\<not> falsy (findPackageRoot sample_env (moduleDirname sample_env))
   \<and> getChangedEntriesInReport sample_env [sample_entry, sample_new_entry, sample_unchanged_entry]
       = ([sample_entry, sample_new_entry], [sample_unchanged_entry])
   \<and> (0::nat) < length [sample_entry, sample_new_entry]
   \<and> \<not> empty (diff ([sample_entry, sample_new_entry] ! 0))
   \<and> before sample_env sample_entry = ''`2000 B`<br />`800 B`''
   \<and> after sample_env sample_entry = ''`1500 B`<br />`600 B`''"
proof -
  have i: "(0::nat) < length [sample_entry, sample_new_entry]" by simp
  have e: "\<not> empty (diff ([sample_entry, sample_new_entry] ! 0))"
    by (simp add: sample_entry_def)
  note t = before_cell_subtracts_delta [OF sample_root sample_changed i e, of sample_options]
  from t have b: "before sample_env sample_entry = ''`2000 B`<br />`800 B`''"
    by (simp add: sample_entry_def sample_env_def sample_formatBytes_values)
  from t have a: "after sample_env sample_entry = ''`1500 B`<br />`600 B`''"
    by (simp add: sample_entry_def sample_env_def sample_formatBytes_values)
  from sample_root sample_changed i e b a show ?thesis by (intro conjI)
qed

text \<open>
  Claim C4. For a changed entry whose diff is marked empty, both parts of the Before cell
  are \<^verbatim>\<open>formatBytes(0)\<close>, the Change cell is the fixed new-entry marker, and the row is
  the same whatever the delta formatter is: no computed delta is rendered.
\<close>

theorem new_entry_row:
  assumes "\<not> falsy (findPackageRoot env (moduleDirname env))"
    and "getChangedEntriesInReport env report = (ch, un)"
    and "i < length ch" and "empty (diff (ch ! i))"
  shows "stdout (trace (markdownReporter env report opts)) =
           [[Str (join nl (reportLines env opts ch un))]]
       \<and> reportLines env opts ch un ! (4 + i) =
           ''| '' @ title (ch ! i)
           @ '' | `'' @ formatBytes env 0 @ ''`<br />`'' @ formatBytes env 0
           @ ''` | `'' @ formatBytes env (minifiedSize (ch ! i)) @ ''`<br />`''
           @ formatBytes env (gzippedSize (ch ! i))
           @ ''` | '' @ [CHR 0xF0, CHR 0x9F, CHR 0x86, CHR 0x95] @ '' New entry|''
       \<and> before env (ch ! i) = ''`'' @ formatBytes env 0 @ ''`<br />`'' @ formatBytes env 0 @ ''`''
       \<and> difference env (deltaFormat opts) (ch ! i) =
           [CHR 0xF0, CHR 0x9F, CHR 0x86, CHR 0x95] @ '' New entry''
       \<and> changedRow (env\<lparr>formatDeltaFactory := factory\<rparr>) fmt (ch ! i) = changedRow env fmt (ch ! i)"
proof -
  from assms(3) have ne: "ch \<noteq> []" by auto
  have a: "stdout (trace (markdownReporter env report opts)) =
           [[Str (join nl (reportLines env opts ch un))]]"
    by (rule stdout_changed [OF assms(1,2) ne])
  have b: "reportLines env opts ch un ! (4 + i) =
           ''| '' @ title (ch ! i)
           @ '' | `'' @ formatBytes env 0 @ ''`<br />`'' @ formatBytes env 0
           @ ''` | `'' @ formatBytes env (minifiedSize (ch ! i)) @ ''`<br />`''
           @ formatBytes env (gzippedSize (ch ! i))
           @ ''` | '' @ [CHR 0xF0, CHR 0x9F, CHR 0x86, CHR 0x95] @ '' New entry|''"
    using reportLines_row [OF assms(3), of env opts un] assms(4)
    by (simp add: changedRow_def before_def after_def difference_def new_button_def)
  have c: "before env (ch ! i) = ''`'' @ formatBytes env 0 @ ''`<br />`'' @ formatBytes env 0 @ ''`''"
    using assms(4) by (simp add: before_def)
  have d: "difference env (deltaFormat opts) (ch ! i) =
           [CHR 0xF0, CHR 0x9F, CHR 0x86, CHR 0x95] @ '' New entry''"
    using assms(4) by (simp add: difference_def new_button_def)
  have e: "changedRow (env\<lparr>formatDeltaFactory := factory\<rparr>) fmt (ch ! i) = changedRow env fmt (ch ! i)"
    using assms(4) by (simp add: changedRow_def before_def after_def difference_def)
  from a b c d e show ?thesis by (intro conjI)
qed

theorem new_entry_row_witness:
  "\<not> falsy (findPackageRoot sample_env (moduleDirname sample_env))
   \<and> getChangedEntriesInReport sample_env [sample_entry, sample_new_entry, sample_unchanged_entry]
       = ([sample_entry, sample_new_entry], [sample_unchanged_entry])
   \<and> (1::nat) < length [sample_entry, sample_new_entry]
   \<and> empty (diff ([sample_entry, sample_new_entry] ! 1))
   \<and> reportLines sample_env sample_options [sample_entry, sample_new_entry] [sample_unchanged_entry] ! 5 =
       ''| <samp>pkg</samp> <br /> <abbr title='' @ [CHR 0x27] @ ''card.fixture.js'' @ [CHR 0x27]
       @ ''>Card</abbr> | `0 B`<br />`0 B` | `900 B`<br />`300 B` | ''
       @ [CHR 0xF0, CHR 0x9F, CHR 0x86, CHR 0x95] @ '' New entry|''"
proof -
  have i: "(1::nat) < length [sample_entry, sample_new_entry]" by simp
  have e: "empty (diff ([sample_entry, sample_new_entry] ! 1))"
    by (simp add: sample_new_entry_def)
  note t = new_entry_row [OF sample_root sample_changed i e, of sample_options, THEN conjunct2,
      THEN conjunct1]
  from t have r: "reportLines sample_env sample_options [sample_entry, sample_new_entry] [sample_unchanged_entry] ! 5 =
       ''| <samp>pkg</samp> <br /> <abbr title='' @ [CHR 0x27] @ ''card.fixture.js'' @ [CHR 0x27]
       @ ''>Card</abbr> | `0 B`<br />`0 B` | `900 B`<br />`300 B` | ''
       @ [CHR 0xF0, CHR 0x9F, CHR 0x86, CHR 0x95] @ '' New entry|''"
    by (simp add: sample_new_entry_def sample_env_def sample_formatBytes_values title_def sq_def)
  from sample_root sample_changed i e r show ?thesis by (intro conjI)
qed

text \<open>
  Claim C10. The row of a changed entry whose diff is marked empty does not depend on the
  stored deltas: replacing \<^verbatim>\<open>diff.minified.delta\<close> and \<^verbatim>\<open>diff.gzip.delta\<close> by any
  other values gives the same row, character for character.
\<close>

theorem new_entry_row_ignores_deltas:
  assumes "empty (diff e)"
    and "e' = e\<lparr>diff := (diff e)\<lparr>minified := (minified (diff e))\<lparr>delta := a\<rparr>,
                               gzip := (gzip (diff e))\<lparr>delta := b\<rparr>\<rparr>\<rparr>"
  shows "changedRow env fmt e' = changedRow env fmt e"
  using assms by (simp add: changedRow_def title_def before_def after_def difference_def)

theorem new_entry_row_ignores_deltas_witness:
  "empty (diff sample_new_entry)
   \<and> changedRow sample_env DeltaKey
        (sample_new_entry\<lparr>diff := (diff sample_new_entry)
           \<lparr>minified := (minified (diff sample_new_entry))\<lparr>delta := - 7\<rparr>,
            gzip := (gzip (diff sample_new_entry))\<lparr>delta := 12345\<rparr>\<rparr>\<rparr>)
       = changedRow sample_env DeltaKey sample_new_entry
   \<and> delta (minified (diff sample_new_entry)) \<noteq> - 7
   \<and> delta (gzip (diff sample_new_entry)) \<noteq> 12345"
proof -
  have e: "empty (diff sample_new_entry)" by (simp add: sample_new_entry_def)
  have d: "delta (minified (diff sample_new_entry)) \<noteq> - 7
   \<and> delta (gzip (diff sample_new_entry)) \<noteq> 12345" by (simp add: sample_new_entry_def)
  from new_entry_row_ignores_deltas [OF e refl, where a = "- 7" and b = 12345
      and env = sample_env and fmt = DeltaKey] e d
  show ?thesis by blast
qed

text \<open>
  Claim C5. \<^verbatim>\<open>getDirectionSymbol\<close> returns the decrease image for a negative value, the
  increase image for a positive value and the empty string for zero. \<^verbatim>\<open>formatDelta\<close>
  hands it to the delta formatter as the direction-symbol callback and renders what the
  formatter returns, so a formatter that returns the callback's symbol for the delta of
  the metric it is given yields that symbol in the cell; the Change cell of an entry that
  is not new is the cell of the minified diff, a line break and the cell of the gzip diff,
  each computed from its own metric alone.
\<close>

theorem direction_symbol_by_sign:
  \<open>(v < 0 \<longrightarrow> getDirectionSymbol v =
        ''<img aria-hidden="true" src="https://microsoft.github.io/monosize/images/decrease.png" />'')
   \<and> (v > 0 \<longrightarrow> getDirectionSymbol v =
        ''<img aria-hidden="true" src="https://microsoft.github.io/monosize/images/increase.png" />'')
   \<and> (v = 0 \<longrightarrow> getDirectionSymbol v = [])
   \<and> formatDelta env d fmt =
        (case formatDeltaFactory env d fmt getDirectionSymbol of
           Plain s \<Rightarrow> s
         | Structured out symb \<Rightarrow> ''`'' @ out @ ''` '' @ symb)
   \<and> (formatDeltaFactory env d fmt getDirectionSymbol = Structured out (getDirectionSymbol (delta d)) \<longrightarrow>
        formatDelta env d fmt = ''`'' @ out @ ''` '' @ getDirectionSymbol (delta d))
   \<and> (\<not> empty (diff e) \<longrightarrow>
        difference env fmt e =
          formatDelta env (minified (diff e)) fmt @ ''<br />'' @ formatDelta env (gzip (diff e)) fmt)\<close>
  by (simp add: getDirectionSymbol_def img_def icons_decrease_def icons_increase_def
      formatDelta_def difference_def)

theorem direction_symbol_by_sign_witness:
  \<open>(- 500 :: int) < 0 \<and> (300 :: int) > 0 \<and> \<not> empty (diff sample_entry)
   \<and> getDirectionSymbol (- 500) =
        ''<img aria-hidden="true" src="https://microsoft.github.io/monosize/images/decrease.png" />''
   \<and> getDirectionSymbol 300 =
        ''<img aria-hidden="true" src="https://microsoft.github.io/monosize/images/increase.png" />''
   \<and> getDirectionSymbol 0 = []
   \<and> difference sample_env DeltaKey sample_entry =
        ''`-500 B` <img aria-hidden="true" src="https://microsoft.github.io/monosize/images/decrease.png" />''
        @ ''<br />''
        @ ''`-200 B` <img aria-hidden="true" src="https://microsoft.github.io/monosize/images/decrease.png" />''\<close>
proof -
  have e: "\<not> empty (diff sample_entry)" by (simp add: sample_entry_def)
  have m: "delta (minified (diff sample_entry)) = - 500" by (simp add: sample_entry_def)
  have g: "delta (gzip (diff sample_entry)) = - 200" by (simp add: sample_entry_def)
  note neg = direction_symbol_by_sign [of "- 500", THEN conjunct1]
  note pos = direction_symbol_by_sign [of 300, THEN conjunct2, THEN conjunct1]
  note zero = direction_symbol_by_sign [of 0, THEN conjunct2, THEN conjunct2, THEN conjunct1]
  note cell = direction_symbol_by_sign [where env = sample_env and fmt = DeltaKey,
      THEN conjunct2, THEN conjunct2, THEN conjunct2, THEN conjunct2, THEN conjunct1]
  note both = direction_symbol_by_sign [where env = sample_env and fmt = DeltaKey and e = sample_entry,
      THEN conjunct2, THEN conjunct2, THEN conjunct2, THEN conjunct2, THEN conjunct2]
  have d1: \<open>getDirectionSymbol (- 500) =
        ''<img aria-hidden="true" src="https://microsoft.github.io/monosize/images/decrease.png" />''\<close>
    using neg by simp
  have d2: \<open>getDirectionSymbol 300 =
        ''<img aria-hidden="true" src="https://microsoft.github.io/monosize/images/increase.png" />''\<close>
    using pos by simp
  have d3: "getDirectionSymbol 0 = []" using zero by simp
  have d4: \<open>getDirectionSymbol (- 200) =
        ''<img aria-hidden="true" src="https://microsoft.github.io/monosize/images/decrease.png" />''\<close>
    using direction_symbol_by_sign [of "- 200", THEN conjunct1] by simp
  have c1: \<open>formatDelta sample_env (minified (diff sample_entry)) DeltaKey =
      ''`-500 B` <img aria-hidden="true" src="https://microsoft.github.io/monosize/images/decrease.png" />''\<close>
    using cell [of "minified (diff sample_entry)" "sample_formatBytes (- 500)"]
      sample_factory_calls_back [of "minified (diff sample_entry)"]
    by (simp add: m d1 sample_formatBytes_values)
  have c2: \<open>formatDelta sample_env (gzip (diff sample_entry)) DeltaKey =
      ''`-200 B` <img aria-hidden="true" src="https://microsoft.github.io/monosize/images/decrease.png" />''\<close>
    using cell [of "gzip (diff sample_entry)" "sample_formatBytes (- 200)"]
      sample_factory_calls_back [of "gzip (diff sample_entry)"]
    by (simp add: g d4 sample_formatBytes_values)
  have c: \<open>difference sample_env DeltaKey sample_entry =
        ''`-500 B` <img aria-hidden="true" src="https://microsoft.github.io/monosize/images/decrease.png" />''
        @ ''<br />''
        @ ''`-200 B` <img aria-hidden="true" src="https://microsoft.github.io/monosize/images/decrease.png" />''\<close>
    using both e by (simp only: c1 c2 simp_thms)
  have s1: "(- 500 :: int) < 0" by simp
  have s2: "(300 :: int) > 0" by simp
  from s1 s2 e d1 d2 d3 c show ?thesis by (intro conjI)
qed

text \<open>
  Claim C6. With at least one changed entry: when \<open>showUnchanged\<close> is false the printed
  lines are the header, the table and the footer, and none of them is the opening line of
  the collapsible section, whatever the unchanged entries are; when \<open>showUnchanged\<close> is
  true and there is an unchanged entry, the section follows the table, with one row for
  each unchanged entry, holding its title and its current minified and gzipped sizes.
\<close>

theorem unchanged_section_shown_on_request:
  assumes "\<not> falsy (findPackageRoot env (moduleDirname env))"
    and "getChangedEntriesInReport env report = (ch, un)" and "ch \<noteq> []"
  shows "stdout (trace (markdownReporter env report opts)) =
           [[Str (join nl (reportLines env opts ch un))]]
       \<and> (\<not> showUnchanged opts \<longrightarrow>
            reportLines env opts ch un =
              reportHeader @ changedTable env (deltaFormat opts) ch @ [footer opts]
            \<and> ''<details>'' \<notin> set (reportLines env opts ch un))
       \<and> (showUnchanged opts \<and> un \<noteq> [] \<longrightarrow>
            reportLines env opts ch un =
              reportHeader @ changedTable env (deltaFormat opts) ch
              @ [''<details>'',
                 ''<summary>Unchanged fixtures</summary>'',
                 '''',
                 ''| Package & Exports | Size (minified/GZIP) |'',
                 ''| ----------------- | -------------------: |'']
              @ map (\<lambda>e. ''| '' @ title e @ '' | `'' @ formatBytes env (minifiedSize e)
                          @ ''`<br />`'' @ formatBytes env (gzippedSize e) @ ''` |'') un
              @ [''</details>'', footer opts])"
proof -
  have a: "stdout (trace (markdownReporter env report opts)) =
           [[Str (join nl (reportLines env opts ch un))]]"
    by (rule stdout_changed [OF assms])
  have b: "\<not> showUnchanged opts \<Longrightarrow>
            reportLines env opts ch un =
              reportHeader @ changedTable env (deltaFormat opts) ch @ [footer opts]"
    by (simp add: reportLines_def unchangedSection_def)
  have c: "\<not> showUnchanged opts \<Longrightarrow> ''<details>'' \<notin> set (reportLines env opts ch un)"
    using no_details_without_section [of env "deltaFormat opts" ch opts] b by simp
  have d: "showUnchanged opts \<and> un \<noteq> [] \<Longrightarrow>
            reportLines env opts ch un =
              reportHeader @ changedTable env (deltaFormat opts) ch
              @ [''<details>'',
                 ''<summary>Unchanged fixtures</summary>'',
                 '''',
                 ''| Package & Exports | Size (minified/GZIP) |'',
                 ''| ----------------- | -------------------: |'']
              @ map (\<lambda>e. ''| '' @ title e @ '' | `'' @ formatBytes env (minifiedSize e)
                          @ ''`<br />`'' @ formatBytes env (gzippedSize e) @ ''` |'') un
              @ [''</details>'', footer opts]"
    by (simp add: reportLines_def unchangedSection_def unchangedRow_def)
  from a b c d show ?thesis by blast
qed

theorem unchanged_section_shown_on_request_witness:
  "\<not> falsy (findPackageRoot sample_env (moduleDirname sample_env))
   \<and> getChangedEntriesInReport sample_env [sample_entry, sample_unchanged_entry]
       = ([sample_entry], [sample_unchanged_entry])
   \<and> [sample_entry] \<noteq> []
   \<and> \<not> showUnchanged (sample_options\<lparr>showUnchanged := False\<rparr>)
   \<and> ''<details>'' \<notin> set (reportLines sample_env (sample_options\<lparr>showUnchanged := False\<rparr>)
                               [sample_entry] [sample_unchanged_entry])
   \<and> showUnchanged sample_options
   \<and> [sample_unchanged_entry] \<noteq> []
   \<and> drop 6 (reportLines sample_env sample_options [sample_entry] [sample_unchanged_entry]) =
       [''<details>'',
        ''<summary>Unchanged fixtures</summary>'',
        '''',
        ''| Package & Exports | Size (minified/GZIP) |'',
        ''| ----------------- | -------------------: |'',
        ''| <samp>pkg</samp> <br /> <abbr title='' @ [CHR 0x27] @ ''link.fixture.js'' @ [CHR 0x27]
          @ ''>Link</abbr> | `700 B`<br />`250 B` |'',
        ''</details>'',
        footer sample_options]"
proof -
  have ne: "[sample_entry] \<noteq> []" by simp
  have off: "\<not> showUnchanged (sample_options\<lparr>showUnchanged := False\<rparr>)" by simp
  have on: "showUnchanged sample_options" by (simp add: sample_options_def)
  have une: "[sample_unchanged_entry] \<noteq> []" by simp
  note t_off = unchanged_section_shown_on_request [OF sample_root sample_changed_only ne,
      of "sample_options\<lparr>showUnchanged := False\<rparr>", THEN conjunct2, THEN conjunct1]
  note t_on = unchanged_section_shown_on_request [OF sample_root sample_changed_only ne,
      of sample_options, THEN conjunct2, THEN conjunct2]
  from t_off off have a: "''<details>'' \<notin> set (reportLines sample_env
      (sample_options\<lparr>showUnchanged := False\<rparr>) [sample_entry] [sample_unchanged_entry])"
    by blast
  from t_on on une have "reportLines sample_env sample_options [sample_entry] [sample_unchanged_entry] =
      reportHeader @ changedTable sample_env (deltaFormat sample_options) [sample_entry]
              @ [''<details>'',
                 ''<summary>Unchanged fixtures</summary>'',
                 '''',
                 ''| Package & Exports | Size (minified/GZIP) |'',
                 ''| ----------------- | -------------------: |'']
              @ map (\<lambda>e. ''| '' @ title e @ '' | `'' @ formatBytes sample_env (minifiedSize e)
                          @ ''`<br />`'' @ formatBytes sample_env (gzippedSize e) @ ''` |'')
                  [sample_unchanged_entry]
              @ [''</details>'', footer sample_options]"
    by blast
  then have b: "drop 6 (reportLines sample_env sample_options [sample_entry] [sample_unchanged_entry]) =
       [''<details>'',
        ''<summary>Unchanged fixtures</summary>'',
        '''',
        ''| Package & Exports | Size (minified/GZIP) |'',
        ''| ----------------- | -------------------: |'',
        ''| <samp>pkg</samp> <br /> <abbr title='' @ [CHR 0x27] @ ''link.fixture.js'' @ [CHR 0x27]
          @ ''>Link</abbr> | `700 B`<br />`250 B` |'',
        ''</details>'',
        footer sample_options]"
    by (simp add: reportHeader_def changedTable_def title_def sq_def sample_unchanged_entry_def
        sample_env_def sample_formatBytes_values)
  from sample_root sample_changed_only ne off a on une b show ?thesis by (intro conjI)
qed

text \<open>
  Claim C7 at an input where it fails. The output file is configured and no entry has
  changed: the reporter prints the header and the no-changes line and returns at line 46,
  so \<^verbatim>\<open>fs.writeFile\<close> is never called. (With a changed entry and a path that
  \<^verbatim>\<open>fs.writeFile\<close> accepts, the file receives the printed text, see
  \<open>file_receives_printed_text\<close>.)
\<close>

theorem no_file_written_without_changes:
  "outputFile sample_options = Some ''report.md''
   \<and> getChangedEntriesInReport sample_env [sample_unchanged_entry] = ([], [sample_unchanged_entry])
   \<and> stdout (completed sample_env
        (markdownReporter sample_env [sample_unchanged_entry] sample_options)) =
       [[Str (join nl (reportHeader @ [noChangesLine]))]]
   \<and> writes (completed sample_env
        (markdownReporter sample_env [sample_unchanged_entry] sample_options)) = []
   \<and> pending (markdownReporter sample_env [sample_unchanged_entry] sample_options) = []"
proof -
  have g: "getChangedEntriesInReport sample_env [sample_unchanged_entry] = ([], [sample_unchanged_entry])"
    by (simp add: sample_env_def sample_classifier_def sample_unchanged_entry_def)
  have o: "outputFile sample_options = Some ''report.md''" by (simp add: sample_options_def)
  from reporter_no_changes [OF sample_root g, of sample_options] g o show ?thesis
    by (simp add: completed_def)
qed

text \<open>
  Claim C9 at an input where it fails. The output path holds a NUL character, which
  \<^verbatim>\<open>fs.writeFile\<close> rejects at once by throwing in its caller. Lines 104 to 116 have
  no \<^verbatim>\<open>try\<close>, so the error leaves \<^verbatim>\<open>markdownReporter\<close>: the report has been printed,
  nothing is written and nothing reaches the error channel. (A failure that the file
  system reports to the callback is only logged and the reporter returns normally, see
  \<open>callback_failure_is_logged\<close>; the general form of the throw is
  \<open>rejected_path_is_thrown\<close>.)
\<close>

theorem invalid_path_makes_reporter_throw:
  "outputFile nul_path_options = Some [CHR ''a'', CHR 0x00, CHR ''b'']
   \<and> getChangedEntriesInReport sample_env [sample_entry] = ([sample_entry], [])
   \<and> outcome (markdownReporter sample_env [sample_entry] nul_path_options) =
       Inl (Error ''ERR_INVALID_ARG_VALUE: the path must be without null bytes'')
   \<and> stdout (completed sample_env (markdownReporter sample_env [sample_entry] nul_path_options)) =
       [[Str (join nl (reportLines sample_env nul_path_options [sample_entry] []))]]
   \<and> stderr (completed sample_env (markdownReporter sample_env [sample_entry] nul_path_options)) = []
   \<and> writes (completed sample_env (markdownReporter sample_env [sample_entry] nul_path_options)) = []"
proof -
  have o: "outputFile nul_path_options = Some [CHR ''a'', CHR 0x00, CHR ''b'']"
    by (simp add: nul_path_options_def)
  have ne: "[sample_entry] \<noteq> []" by simp
  have nf: "[CHR ''a'', CHR 0x00, CHR ''b''] \<noteq> []" by simp
  have rej: "writeFileRejects sample_env [CHR ''a'', CHR 0x00, CHR ''b''] =
      Some (Error ''ERR_INVALID_ARG_VALUE: the path must be without null bytes'')"
    by (simp add: sample_env_def sample_validatePath_def)
  note t = rejected_path_is_thrown [OF sample_root sample_changed_single ne o nf rej]
  from t have a: "outcome (markdownReporter sample_env [sample_entry] nul_path_options) =
       Inl (Error ''ERR_INVALID_ARG_VALUE: the path must be without null bytes'')"
    by (rule conjunct1)
  note c = t [THEN conjunct2]
  have b: "stdout (completed sample_env (markdownReporter sample_env [sample_entry] nul_path_options)) =
       [[Str (join nl (reportLines sample_env nul_path_options [sample_entry] []))]]"
    by (simp only: c stdout.simps)
  have d: "stderr (completed sample_env (markdownReporter sample_env [sample_entry] nul_path_options)) = []"
    by (simp only: c stderr.simps)
  have e: "writes (completed sample_env (markdownReporter sample_env [sample_entry] nul_path_options)) = []"
    by (simp only: c writes.simps)
  from o sample_changed_single a b d e show ?thesis by (intro conjI)
qed

end
